theory Spec2Isabelle
  imports Main "HOL-Library.Char_ord" "HOL-Library.List_Lexorder"
begin

section \<open>Data model\<close>

text \<open>
  The view layer (\<^verbatim>\<open>app/recipe/views.py\<close>) works on three tables. Tag and Ingredient
  rows have the same shape and are served by one shared base view set, so one record
  stands for both. Identifiers are Python integers. A recipe's \<open>tags\<close> and
  \<open>ingredients\<close> are its rows of the two many-to-many association tables, given by the
  identifier of the related row. The price is a decimal with two places, kept in
  hundredths; the image reference plays no part in the view layer and is left out.
\<close>

type_synonym user_id = int

record attr =
  attr_id :: int
  attr_name :: string
  attr_user :: user_id

record recipe =
  recipe_id :: int
  recipe_user :: user_id
  title :: string
  time_minutes :: int
  price :: int
  description :: string
  link :: string
  tags :: "int list"
  ingredients :: "int list"

text \<open>
  The request as the view methods read it: \<^verbatim>\<open>self.request.user\<close> (the caller that the
  permission check let through) and \<^verbatim>\<open>self.request.query_params\<close>.
\<close>

record request =
  user :: user_id
  query_params :: "string \<rightharpoonup> string"

text \<open>
  Exceptions that leave the view methods. \<open>ValueError\<close> is raised by Python's
  \<^verbatim>\<open>int()\<close>, \<open>FieldError\<close> by the ORM when a filter keyword does not start with a field
  of the model, \<open>Http404\<close> and \<open>MultipleObjectsReturned\<close> by the object lookup.
  \<open>LookupNotModelled\<close> marks filter keywords on real fields that this development
  does not interpret; no view uses one.
\<close>

datatype error =
    ValueError
  | FieldError string
  | Http404
  | MultipleObjectsReturned
  | LookupNotModelled string

section \<open>Python helpers used by the recipe view\<close>

text \<open>\<^verbatim>\<open>str.split(sep)\<close> for a one-character separator: never returns the empty list.\<close>

fun str_split :: "char \<Rightarrow> string \<Rightarrow> string list" where
  "str_split sep [] = [[]]"
| "str_split sep (c # cs) =
     (if c = sep then [] # str_split sep cs
      else (case str_split sep cs of
              [] \<Rightarrow> [[c]]
            | t # ts \<Rightarrow> (c # t) # ts))"

text \<open>
  \<^verbatim>\<open>int(s)\<close> on a string, base ten: surrounding white space is stripped, one sign is
  allowed, then at least one digit, with single underscores allowed between digits.
  Anything else raises \<open>ValueError\<close>. Characters are ASCII here.
\<close>

definition is_space :: "char \<Rightarrow> bool" where
  "is_space c = (let n = (of_char c :: nat) in (9 \<le> n \<and> n \<le> 13) \<or> (28 \<le> n \<and> n \<le> 32))"

definition is_digit :: "char \<Rightarrow> bool" where
  "is_digit c = (let n = (of_char c :: nat) in 48 \<le> n \<and> n \<le> 57)"

definition digit_val :: "char \<Rightarrow> int" where
  "digit_val c = int (of_char c) - 48"

definition strip :: "string \<Rightarrow> string" where
  "strip s = rev (dropWhile is_space (rev (dropWhile is_space s)))"

fun digits :: "int \<Rightarrow> string \<Rightarrow> error + int" where
  "digits acc [] = Inr acc"
| "digits acc [c] = (if is_digit c then Inr (acc * 10 + digit_val c) else Inl ValueError)"
| "digits acc (c # d # cs) =
     (if is_digit c then digits (acc * 10 + digit_val c) (d # cs)
      else if c = CHR ''_'' \<and> is_digit d then digits acc (d # cs)
      else Inl ValueError)"

definition unsigned :: "string \<Rightarrow> error + int" where
  "unsigned s = (case s of
       [] \<Rightarrow> Inl ValueError
     | c # cs \<Rightarrow> if is_digit c then digits 0 s else Inl ValueError)"

definition py_int :: "string \<Rightarrow> error + int" where
  "py_int str_id = (case strip str_id of
       [] \<Rightarrow> Inl ValueError
     | c # cs \<Rightarrow>
         if c = CHR ''-'' then (case unsigned cs of Inl e \<Rightarrow> Inl e | Inr n \<Rightarrow> Inr (- n))
         else if c = CHR ''+'' then unsigned cs
         else unsigned (c # cs))"

text \<open>The list comprehension of \<^verbatim>\<open>_params_to_ints\<close>: the first failing token raises.\<close>

fun ints_of :: "string list \<Rightarrow> error + int list" where
  "ints_of [] = Inr []"
| "ints_of (str_id # rest) =
     (case py_int str_id of
        Inl e \<Rightarrow> Inl e
      | Inr n \<Rightarrow> (case ints_of rest of Inl e \<Rightarrow> Inl e | Inr ns \<Rightarrow> Inr (n # ns)))"

text \<open>\<^verbatim>\<open>RecipeViewSet._params_to_ints\<close> (views.py, lines 47 to 49).\<close>

definition params_to_ints :: "string \<Rightarrow> error + int list" where
  "params_to_ints qs = ints_of (str_split (CHR '','') qs)"

text \<open>Truthiness of \<^verbatim>\<open>query_params.get(key)\<close>: \<open>None\<close> and the empty string are false.\<close>

definition truthy :: "string option \<Rightarrow> bool" where
  "truthy p = (case p of None \<Rightarrow> False | Some s \<Rightarrow> s \<noteq> [])"

section \<open>Query sets\<close>

text \<open>
  A query set is the list of rows its SQL query yields. \<^verbatim>\<open>filter(**kwargs)\<close> first
  resolves the keyword: it is split at the lookup separator \<^verbatim>\<open>__\<close>, and the first
  component has to be a field of the model, otherwise \<open>FieldError\<close> is raised when
  \<^verbatim>\<open>filter\<close> is called.
\<close>

fun lookup_split :: "string \<Rightarrow> string \<Rightarrow> string list" where
  "lookup_split acc [] = [rev acc]"
| "lookup_split acc [c] = [rev (c # acc)]"
| "lookup_split acc (c # d # cs) =
     (if c = CHR ''_'' \<and> d = CHR ''_'' then rev acc # lookup_split [] cs
      else lookup_split (c # acc) (d # cs))"

text \<open>
  Modelled from the spec: the fields of the Recipe model (\<^verbatim>\<open>core/models.py\<close> is not
  among the sources), as section 3 of the specification lists them, the owner under
  the name \<^verbatim>\<open>user\<close> that the view and the tests use.
\<close>

definition recipe_fields :: "string list" where
  "recipe_fields = [''id'', ''title'', ''time_minutes'', ''price'', ''description'',
     ''link'', ''user'', ''image'', ''tags'', ''ingredients'']"

datatype lookup = TagsIdIn | IngredientsIdIn

definition solve_lookup_type :: "string \<Rightarrow> error + lookup" where
  "solve_lookup_type kw =
     (case lookup_split [] kw of
        [] \<Rightarrow> Inl (FieldError kw)
      | f # rest \<Rightarrow>
          if f \<notin> set recipe_fields then Inl (FieldError kw)
          else if f = ''tags'' \<and> rest = [''id'', ''in''] then Inr TagsIdIn
          else if f = ''ingredients'' \<and> rest = [''id'', ''in''] then Inr IngredientsIdIn
          else Inl (LookupNotModelled kw))"

text \<open>
  A filter across a many-to-many relation joins the association table: a recipe
  yields one result row for each of its association rows that matches.
\<close>

definition join_in :: "(recipe \<Rightarrow> int list) \<Rightarrow> int list \<Rightarrow> recipe list \<Rightarrow> recipe list" where
  "join_in rel ids qs =
     concat (map (\<lambda>r. map (\<lambda>_. r) (filter (\<lambda>i. i \<in> set ids) (rel r))) qs)"

definition filter_kw :: "string \<Rightarrow> int list \<Rightarrow> recipe list \<Rightarrow> error + recipe list" where
  "filter_kw kw ids qs =
     (case solve_lookup_type kw of
        Inl e \<Rightarrow> Inl e
      | Inr TagsIdIn \<Rightarrow> Inr (join_in tags ids qs)
      | Inr IngredientsIdIn \<Rightarrow> Inr (join_in ingredients ids qs))"

text \<open>\<^verbatim>\<open>filter(user=u)\<close>, \<^verbatim>\<open>order_by('-id')\<close> and \<^verbatim>\<open>distinct()\<close> on recipes.\<close>

definition filter_user :: "user_id \<Rightarrow> recipe list \<Rightarrow> recipe list" where
  "filter_user u qs = filter (\<lambda>r. recipe_user r = u) qs"

definition order_by_id_desc :: "recipe list \<Rightarrow> recipe list" where
  "order_by_id_desc qs = rev (sort_key recipe_id qs)"

definition distinct_qs :: "recipe list \<Rightarrow> recipe list" where
  "distinct_qs qs = remdups qs"

section \<open>The recipe view set\<close>

text \<open>
  \<^verbatim>\<open>RecipeViewSet.get_queryset\<close> (views.py, lines 51 to 65). The class attribute
  \<^verbatim>\<open>queryset = Recipe.objects.all()\<close> is the parameter \<open>queryset\<close>. The two filter
  keywords are the ones the source writes.
\<close>

definition get_queryset :: "recipe list \<Rightarrow> request \<Rightarrow> error + recipe list" where
  "get_queryset queryset req =
     (let tags_p = query_params req ''tags'';
          ingredients_p = query_params req ''ingredients'';
          q1 = (if truthy tags_p then
                  (case params_to_ints (the tags_p) of
                     Inl e \<Rightarrow> Inl e
                   | Inr tag_ids \<Rightarrow> filter_kw ''tags_id_in'' tag_ids queryset)
                else Inr queryset)
      in case q1 of
           Inl e \<Rightarrow> Inl e
         | Inr qs1 \<Rightarrow>
             (let q2 = (if truthy ingredients_p then
                          (case params_to_ints (the ingredients_p) of
                             Inl e \<Rightarrow> Inl e
                           | Inr ingredient_ids \<Rightarrow>
                               filter_kw ''ingredients_id_in'' ingredient_ids qs1)
                        else Inr qs1)
              in case q2 of
                   Inl e \<Rightarrow> Inl e
                 | Inr qs2 \<Rightarrow> Inr (distinct_qs (order_by_id_desc (filter_user (user req) qs2)))))"

text \<open>
  The object lookup behind retrieve, update and delete (the framework's
  \<^verbatim>\<open>get_object\<close>): \<^verbatim>\<open>get_object_or_404(self.get_queryset(), pk=pk)\<close>.
\<close>

definition get_object :: "recipe list \<Rightarrow> request \<Rightarrow> int \<Rightarrow> error + recipe" where
  "get_object queryset req pk =
     (case get_queryset queryset req of
        Inl e \<Rightarrow> Inl e
      | Inr qs \<Rightarrow>
          (case filter (\<lambda>r. recipe_id r = pk) qs of
             [] \<Rightarrow> Inl Http404
           | [r] \<Rightarrow> Inr r
           | _ \<Rightarrow> Inl MultipleObjectsReturned))"

text \<open>\<^verbatim>\<open>RecipeViewSet.get_serializer_class\<close> (views.py, lines 68 to 73).\<close>

datatype serializer = RecipeSerializer | RecipeDetailSerializer

definition serializer_class :: serializer where
  "serializer_class = RecipeDetailSerializer"

definition get_serializer_class :: "string \<Rightarrow> serializer" where
  "get_serializer_class action =
     (if action = ''list'' then RecipeSerializer else serializer_class)"

text \<open>
  Modelled from the spec: the field projections of the two serializer classes
  (\<^verbatim>\<open>recipe/serializers.py\<close> is not among the sources). Section 4.3 gives the list
  output as a summary without description and without tag or ingredient detail, and
  the retrieve output as the full projection with description, tags and ingredients.
\<close>

definition summary_fields :: "string list" where
  "summary_fields = [''id'', ''title'', ''time_minutes'', ''price'', ''link'']"

fun serializer_fields :: "serializer \<Rightarrow> string list" where
  "serializer_fields RecipeSerializer = summary_fields"
| "serializer_fields RecipeDetailSerializer =
     summary_fields @ [''description'', ''tags'', ''ingredients'']"

text \<open>
  \<^verbatim>\<open>RecipeViewSet.perform_create\<close> (views.py, lines 75 to 77). The framework's
  \<^verbatim>\<open>serializer.save(**kwargs)\<close> builds \<^verbatim>\<open>{**self.validated_data, **kwargs}\<close> and passes
  it to the serializer's \<^verbatim>\<open>create\<close>; \<open>save\<close> returns that dictionary.
\<close>

datatype val = IntV int | StrV string

type_synonym data = "string \<rightharpoonup> val"

definition save :: "data \<Rightarrow> data \<Rightarrow> data" where
  "save validated_data kwargs = validated_data ++ kwargs"

definition perform_create :: "request \<Rightarrow> data \<Rightarrow> data" where
  "perform_create req validated_data = save validated_data [''user'' \<mapsto> IntV (user req)]"

text \<open>
  Modelled from the spec: the row that the serializer's \<^verbatim>\<open>create\<close> inserts
  (\<^verbatim>\<open>recipe/serializers.py\<close> and \<^verbatim>\<open>core/models.py\<close> are not among the sources). Section
  4.3 requires title, time_minutes and price; description and link are optional. The
  association sets start empty and are filled by the reconciler. \<open>None\<close> stands for
  a rejected write.
\<close>

definition opt_str :: "val option \<Rightarrow> string option" where
  "opt_str v = (case v of None \<Rightarrow> Some [] | Some (StrV s) \<Rightarrow> Some s | Some (IntV _) \<Rightarrow> None)"

definition create :: "int \<Rightarrow> data \<Rightarrow> recipe option" where
  "create new_id d =
     (case (d ''user'', d ''title'', d ''time_minutes'', d ''price'',
            opt_str (d ''description''), opt_str (d ''link'')) of
        (Some (IntV u), Some (StrV t), Some (IntV m), Some (IntV p), Some ds, Some l) \<Rightarrow>
          Some \<lparr>recipe_id = new_id, recipe_user = u, title = t, time_minutes = m, price = p,
                description = ds, link = l, tags = [], ingredients = []\<rparr>
      | _ \<Rightarrow> None)"

section \<open>The attribute view sets\<close>

text \<open>
  \<^verbatim>\<open>BaseRecipeAttrViewSet.get_queryset\<close> (views.py, lines 87 to 89), shared by
  \<^verbatim>\<open>TagViewSet\<close> and \<^verbatim>\<open>IngredientViewSet\<close>. The order on names stands for the
  database's collation; rows with equal names keep no particular order in SQL, here
  they come out in reverse table order.
\<close>

definition order_by_name_desc :: "attr list \<Rightarrow> attr list" where
  "order_by_name_desc qs = rev (sort_key attr_name qs)"

definition get_queryset_attr :: "attr list \<Rightarrow> request \<Rightarrow> attr list" where
  "get_queryset_attr queryset req =
     order_by_name_desc (filter (\<lambda>a. attr_user a = user req) queryset)"

definition get_object_attr :: "attr list \<Rightarrow> request \<Rightarrow> int \<Rightarrow> error + attr" where
  "get_object_attr queryset req pk =
     (case filter (\<lambda>a. attr_id a = pk) (get_queryset_attr queryset req) of
        [] \<Rightarrow> Inl Http404
      | [a] \<Rightarrow> Inr a
      | _ \<Rightarrow> Inl MultipleObjectsReturned)"

section \<open>Authentication and permission\<close>

text \<open>
  Both view set classes declare \<^verbatim>\<open>authentication_classes = [TokenAuthentication]\<close> and
  \<^verbatim>\<open>permission_classes = [IsAuthenticated]\<close> (views.py, lines 44, 45, 84 and 85). The
  framework runs them before the handler of the action. A credential is what the
  request's \<^verbatim>\<open>Authorization\<close> header amounts to.
\<close>

datatype authentication_class = TokenAuthentication
datatype permission_class = IsAuthenticated
datatype credential = NoCredential | InvalidToken | ValidToken user_id
datatype auth_result = Anonymous | AuthenticationFailed | Authenticated user_id

record view_set =
  authentication_classes :: "authentication_class list"
  permission_classes :: "permission_class list"

definition RecipeViewSet :: view_set where
  "RecipeViewSet =
     \<lparr>authentication_classes = [TokenAuthentication], permission_classes = [IsAuthenticated]\<rparr>"

definition BaseRecipeAttrViewSet :: view_set where
  "BaseRecipeAttrViewSet =
     \<lparr>authentication_classes = [TokenAuthentication], permission_classes = [IsAuthenticated]\<rparr>"

definition TagViewSet :: view_set where
  "TagViewSet = BaseRecipeAttrViewSet"

definition IngredientViewSet :: view_set where
  "IngredientViewSet = BaseRecipeAttrViewSet"

text \<open>
  Token authentication declines a request without a token header (the next
  authenticator is asked, and the caller stays anonymous if all decline), raises on a
  token it does not know, and yields the token's user otherwise.
\<close>

fun authenticate :: "authentication_class \<Rightarrow> credential \<Rightarrow> auth_result" where
  "authenticate TokenAuthentication NoCredential = Anonymous"
| "authenticate TokenAuthentication InvalidToken = AuthenticationFailed"
| "authenticate TokenAuthentication (ValidToken u) = Authenticated u"

fun perform_authentication :: "authentication_class list \<Rightarrow> credential \<Rightarrow> auth_result" where
  "perform_authentication [] cred = Anonymous"
| "perform_authentication (a # as) cred =
     (case authenticate a cred of
        Anonymous \<Rightarrow> perform_authentication as cred
      | r \<Rightarrow> r)"

fun has_permission :: "permission_class \<Rightarrow> auth_result \<Rightarrow> bool" where
  "has_permission IsAuthenticated (Authenticated u) = True"
| "has_permission IsAuthenticated _ = False"

text \<open>
  A request that fails authentication, or that is refused while no authenticator has
  accepted it, is answered 401 when the view has an authenticator that names a
  challenge (token authentication does) and 403 otherwise; an authenticated caller
  without permission is answered 403.
\<close>

definition refusal_status :: "view_set \<Rightarrow> nat" where
  "refusal_status v = (if authentication_classes v = [] then 403 else 401)"

definition permission_denied_status :: "view_set \<Rightarrow> auth_result \<Rightarrow> nat" where
  "permission_denied_status v r =
     (case r of Authenticated u \<Rightarrow> 403 | _ \<Rightarrow> refusal_status v)"

text \<open>
  The framework's \<^verbatim>\<open>dispatch\<close>: authentication and permission checks first, then the
  handler of the action, which gets the caller (\<open>None\<close> for an anonymous one that the
  permissions let through) and the query parameters and returns a status and the new
  state of the tables.
\<close>

definition dispatch ::
  "view_set \<Rightarrow> (user_id option \<Rightarrow> (string \<rightharpoonup> string) \<Rightarrow> 's \<Rightarrow> nat \<times> 's) \<Rightarrow>
   credential \<Rightarrow> (string \<rightharpoonup> string) \<Rightarrow> 's \<Rightarrow> nat \<times> 's" where
  "dispatch v handler cred params s =
     (case perform_authentication (authentication_classes v) cred of
        AuthenticationFailed \<Rightarrow> (refusal_status v, s)
      | r \<Rightarrow>
          if list_all (\<lambda>p. has_permission p r) (permission_classes v)
          then handler (case r of Authenticated u \<Rightarrow> Some u | _ \<Rightarrow> None) params s
          else (permission_denied_status v r, s))"

section \<open>Nested relation reconciliation\<close>

text \<open>
  Modelled from the spec: the nested relation reconciler (\<^verbatim>\<open>recipe/serializers.py\<close> is
  not among the sources), steps 1 and 2 of section 4.2: each descriptor is looked up
  among the entities of the current owner by name; a found entity is reused, otherwise
  a new entity with that name is created under the owner. New rows get the next
  identifier of the table.
\<close>

definition lookup_owned :: "user_id \<Rightarrow> string \<Rightarrow> attr list \<Rightarrow> attr option" where
  "lookup_owned owner n store = find (\<lambda>a. attr_user a = owner \<and> attr_name a = n) store"

definition next_id :: "attr list \<Rightarrow> int" where
  "next_id store = fold max (map attr_id store) 0 + 1"

definition get_or_create :: "user_id \<Rightarrow> string \<Rightarrow> attr list \<Rightarrow> attr \<times> attr list" where
  "get_or_create owner n store =
     (case lookup_owned owner n store of
        Some a \<Rightarrow> (a, store)
      | None \<Rightarrow>
          (let a = \<lparr>attr_id = next_id store, attr_name = n, attr_user = owner\<rparr>
           in (a, store @ [a])))"

fun reconcile :: "user_id \<Rightarrow> string list \<Rightarrow> attr list \<Rightarrow> attr list \<times> attr list" where
  "reconcile owner [] store = ([], store)"
| "reconcile owner (n # ns) store =
     (case get_or_create owner n store of
        (a, store1) \<Rightarrow>
          (case reconcile owner ns store1 of
             (resolved, store2) \<Rightarrow> (a # resolved, store2)))"

text \<open>The entities of one owner, \<^verbatim>\<open>objects.filter(user=owner)\<close>.\<close>

definition owned_by :: "user_id \<Rightarrow> attr list \<Rightarrow> attr list" where
  "owned_by owner store = filter (\<lambda>a. attr_user a = owner) store"

section \<open>Responses to exceptions\<close>

text \<open>
  The framework's exception handler turns \<open>Http404\<close> into a 404 response. The other
  exceptions of this development are no API exceptions: they are not handled and the
  request ends as a server error, status 500. Validation errors would be status 400.
\<close>

definition exception_status :: "error \<Rightarrow> nat" where
  "exception_status e = (case e of Http404 \<Rightarrow> 404 | _ \<Rightarrow> 500)"

definition list_status :: "recipe list \<Rightarrow> request \<Rightarrow> nat" where
  "list_status queryset req =
     (case get_queryset queryset req of Inl e \<Rightarrow> exception_status e | Inr _ \<Rightarrow> 200)"

section \<open>Sample rows\<close>

text \<open>The fixture of the tests (\<^verbatim>\<open>create_recipe\<close> in test_recipe_api.py, lines 38 to 50).\<close>

definition sample_recipe :: "int \<Rightarrow> user_id \<Rightarrow> int list \<Rightarrow> int list \<Rightarrow> recipe" where
  "sample_recipe i u ts is =
     \<lparr>recipe_id = i, recipe_user = u, title = ''Sampple recipe title'', time_minutes = 22,
      price = 525, description = ''Sample description'',
      link = ''http://example.com/recipe.pdf'', tags = ts, ingredients = is\<rparr>"

definition example_recipes :: "recipe list" where
  "example_recipes =
     [sample_recipe 1 1 [1] [], sample_recipe 2 1 [] [2], sample_recipe 3 2 [1] []]"

definition example_tags :: "attr list" where
  "example_tags =
     [\<lparr>attr_id = 1, attr_name = ''Dessert'', attr_user = 1\<rparr>,
      \<lparr>attr_id = 2, attr_name = ''Vegan'', attr_user = 1\<rparr>,
      \<lparr>attr_id = 3, attr_name = ''Indian'', attr_user = 2\<rparr>]"

definition plain_request :: request where
  "plain_request = \<lparr>user = 1, query_params = Map.empty\<rparr>"

definition tags_request :: request where
  "tags_request = \<lparr>user = 1, query_params = [''tags'' \<mapsto> ''1,2'']\<rparr>"

definition empty_filters_request :: request where
  "empty_filters_request =
     \<lparr>user = 1, query_params = [''tags'' \<mapsto> [], ''ingredients'' \<mapsto> []]\<rparr>"

text \<open>A create payload that names another user as owner.\<close>

definition payload_with_user :: data where
  "payload_with_user =
     [''title'' \<mapsto> StrV ''Sample recipe'', ''time_minutes'' \<mapsto> IntV 30,
      ''price'' \<mapsto> IntV 599, ''user'' \<mapsto> IntV 2]"

text \<open>A handler that empties the recipe table, to observe whether a handler ran.\<close>

definition delete_all ::
  "user_id option \<Rightarrow> (string \<rightharpoonup> string) \<Rightarrow> recipe list \<Rightarrow> nat \<times> recipe list" where
  "delete_all u params s = (204, [])"

text \<open>The tags of \<^verbatim>\<open>test_create_recipe_with_existing_tags\<close>.\<close>

definition indian :: attr where
  "indian = \<lparr>attr_id = 1, attr_name = ''Indian'', attr_user = 1\<rparr>"

definition breakfast :: attr where
  "breakfast = \<lparr>attr_id = 2, attr_name = ''Breakfast'', attr_user = 1\<rparr>"

section \<open>Parsing the filter parameters\<close>

lemma params_abc: "params_to_ints ''abc'' = Inl ValueError"
  by code_simp

lemma params_trailing_comma: "params_to_ints ''1,'' = Inl ValueError"
  by code_simp

lemma digits_error: "digits acc s = Inl e \<Longrightarrow> e = ValueError"
  by (induction acc s rule: digits.induct) (auto split: if_splits)

lemma unsigned_error: "unsigned s = Inl e \<Longrightarrow> e = ValueError"
  by (auto simp: unsigned_def split: list.splits if_splits dest: digits_error)

lemma py_int_error: "py_int s = Inl e \<Longrightarrow> e = ValueError"
  by (auto simp: py_int_def split: list.splits if_splits sum.splits dest: unsigned_error)

lemma ints_of_error: "ints_of ss = Inl e \<Longrightarrow> e = ValueError"
  by (induction ss) (auto split: sum.splits dest: py_int_error)

lemma params_to_ints_error: "params_to_ints s = Inl e \<Longrightarrow> e = ValueError"
  by (simp add: params_to_ints_def ints_of_error)

section \<open>The filter keywords of the recipe list\<close>

text \<open>
  Neither keyword that \<open>get_queryset\<close> passes to \<^verbatim>\<open>filter\<close> contains the separator
  \<^verbatim>\<open>__\<close>, so each is taken whole as a field name, and Recipe has no such field.
\<close>

lemma unresolved_tags_kw: "filter_kw ''tags_id_in'' ids qs = Inl (FieldError ''tags_id_in'')"
  by (simp add: filter_kw_def solve_lookup_type_def recipe_fields_def)

lemma unresolved_ingredients_kw:
  "filter_kw ''ingredients_id_in'' ids qs = Inl (FieldError ''ingredients_id_in'')"
  by (simp add: filter_kw_def solve_lookup_type_def recipe_fields_def)

lemma get_queryset_unfiltered:
  "\<not> truthy (query_params req ''tags'') \<Longrightarrow> \<not> truthy (query_params req ''ingredients'') \<Longrightarrow>
   get_queryset db req = Inr (distinct_qs (order_by_id_desc (filter_user (user req) db)))"
  by (simp add: get_queryset_def)

lemma get_queryset_tags_raises:
  "truthy (query_params req ''tags'') \<Longrightarrow>
   get_queryset db req =
     (case params_to_ints (the (query_params req ''tags'')) of
        Inl e \<Rightarrow> Inl e
      | Inr _ \<Rightarrow> Inl (FieldError ''tags_id_in''))"
  by (simp add: get_queryset_def unresolved_tags_kw split: sum.splits)

lemma get_queryset_ingredients_raises:
  "\<not> truthy (query_params req ''tags'') \<Longrightarrow> truthy (query_params req ''ingredients'') \<Longrightarrow>
   get_queryset db req =
     (case params_to_ints (the (query_params req ''ingredients'')) of
        Inl e \<Rightarrow> Inl e
      | Inr _ \<Rightarrow> Inl (FieldError ''ingredients_id_in''))"
  by (simp add: get_queryset_def unresolved_ingredients_kw split: sum.splits)

text \<open>
  With the separator written, the two keywords resolve, and the filter keeps the rows
  with an association to one of the identifiers.
\<close>

lemma resolved_tags_kw: "filter_kw ''tags__id__in'' ids qs = Inr (join_in tags ids qs)"
  by (simp add: filter_kw_def solve_lookup_type_def recipe_fields_def)

lemma resolved_ingredients_kw:
  "filter_kw ''ingredients__id__in'' ids qs = Inr (join_in ingredients ids qs)"
  by (simp add: filter_kw_def solve_lookup_type_def recipe_fields_def)

lemma set_join_in: "set (join_in rel ids qs) = {r \<in> set qs. set (rel r) \<inter> set ids \<noteq> {}}"
  by (auto simp: join_in_def)

lemma get_queryset_result:
  assumes "get_queryset db req = Inr rs"
  shows "rs = distinct_qs (order_by_id_desc (filter_user (user req) db))"
proof (cases "truthy (query_params req ''tags'')")
  case True
  with assms show ?thesis
    by (simp add: get_queryset_tags_raises split: sum.splits)
next
  case False
  note no_tags = this
  show ?thesis
  proof (cases "truthy (query_params req ''ingredients'')")
    case True
    with assms no_tags show ?thesis
      by (simp add: get_queryset_ingredients_raises split: sum.splits)
  next
    case False
    with assms no_tags show ?thesis
      by (simp add: get_queryset_unfiltered)
  qed
qed

text \<open>Every list request with a non-empty filter parameter raises.\<close>

lemma filtered_list_raises:
  assumes "truthy (query_params req ''tags'') \<or> truthy (query_params req ''ingredients'')"
  shows "get_queryset db req \<in>
     {Inl ValueError, Inl (FieldError ''tags_id_in''), Inl (FieldError ''ingredients_id_in'')}"
proof (cases "truthy (query_params req ''tags'')")
  case True
  then show ?thesis
    by (auto simp: get_queryset_tags_raises split: sum.splits dest: params_to_ints_error)
next
  case False
  with assms have "truthy (query_params req ''ingredients'')" by simp
  with False show ?thesis
    by (auto simp: get_queryset_ingredients_raises split: sum.splits
        dest: params_to_ints_error)
qed

section \<open>Order and duplicates\<close>

lemma sorted_wrt_remdups: "sorted_wrt P xs \<Longrightarrow> sorted_wrt P (remdups xs)"
  by (induction xs) auto

lemma order_by_id_desc_sorted:
  "sorted_wrt (\<lambda>a b. recipe_id b \<le> recipe_id a) (order_by_id_desc qs)"
  using sorted_sort_key [of recipe_id qs]
  by (simp add: order_by_id_desc_def sorted_wrt_rev sorted_map)

lemma order_by_name_desc_sorted:
  "sorted_wrt (\<lambda>a b. attr_name b \<le> attr_name a) (order_by_name_desc qs)"
  using sorted_sort_key [of attr_name qs]
  by (simp add: order_by_name_desc_def sorted_wrt_rev sorted_map)

text \<open>What a recipe list request returns, when it returns, is in descending order of
  identifier and free of duplicates.\<close>

lemma get_queryset_sorted_distinct:
  "get_queryset db req = Inr rs \<Longrightarrow>
   sorted_wrt (\<lambda>a b. recipe_id b \<le> recipe_id a) rs \<and> distinct rs"
  by (auto dest!: get_queryset_result
      simp: distinct_qs_def sorted_wrt_remdups order_by_id_desc_sorted)

section \<open>Ownership\<close>

lemma set_owned_recipes:
  "set (distinct_qs (order_by_id_desc (filter_user u db))) = {r \<in> set db. recipe_user r = u}"
  by (auto simp: distinct_qs_def order_by_id_desc_def filter_user_def)

lemma get_queryset_owned:
  "get_queryset db req = Inr rs \<Longrightarrow> set rs = {r \<in> set db. recipe_user r = user req}"
  by (auto dest!: get_queryset_result simp: set_owned_recipes)

lemma get_queryset_ignores_others:
  "get_queryset (filter_user (user req) db) req = get_queryset db req"
proof (cases "truthy (query_params req ''tags'')")
  case True
  then show ?thesis by (simp add: get_queryset_tags_raises)
next
  case False
  note no_tags = this
  show ?thesis
  proof (cases "truthy (query_params req ''ingredients'')")
    case True
    with no_tags show ?thesis by (simp add: get_queryset_ingredients_raises)
  next
    case False
    with no_tags show ?thesis by (simp add: get_queryset_unfiltered filter_user_def)
  qed
qed

lemma get_object_owned:
  assumes "get_object db req pk = Inr r"
  shows "r \<in> set db \<and> recipe_user r = user req \<and> recipe_id r = pk"
proof -
  from assms obtain rs where rs: "get_queryset db req = Inr rs"
    and f: "filter (\<lambda>r. recipe_id r = pk) rs = [r]"
    by (auto simp: get_object_def split: sum.splits list.splits)
  from f have "r \<in> set (filter (\<lambda>r. recipe_id r = pk) rs)" by simp
  then have "r \<in> set rs" "recipe_id r = pk" by simp_all
  with get_queryset_owned [OF rs] show ?thesis by simp
qed

lemma get_object_ignores_others:
  "get_object (filter_user (user req) db) req pk = get_object db req pk"
  by (simp add: get_object_def get_queryset_ignores_others)

lemma set_get_queryset_attr:
  "set (get_queryset_attr adb req) = {a \<in> set adb. attr_user a = user req}"
  by (auto simp: get_queryset_attr_def order_by_name_desc_def)

lemma get_queryset_attr_ignores_others:
  "get_queryset_attr (filter (\<lambda>a. attr_user a = user req) adb) req
   = get_queryset_attr adb req"
  by (simp add: get_queryset_attr_def)

lemma get_object_attr_owned:
  assumes "get_object_attr adb req pk = Inr a"
  shows "a \<in> set adb \<and> attr_user a = user req \<and> attr_id a = pk"
proof -
  from assms have f: "filter (\<lambda>a. attr_id a = pk) (get_queryset_attr adb req) = [a]"
    by (auto simp: get_object_attr_def split: list.splits)
  then have "a \<in> set (filter (\<lambda>a. attr_id a = pk) (get_queryset_attr adb req))" by simp
  then have "a \<in> set (get_queryset_attr adb req)" "attr_id a = pk" by simp_all
  then show ?thesis by (simp add: set_get_queryset_attr)
qed

lemma get_object_attr_ignores_others:
  "get_object_attr (filter (\<lambda>a. attr_user a = user req) adb) req pk
   = get_object_attr adb req pk"
  by (simp add: get_object_attr_def get_queryset_attr_ignores_others)

lemma get_object_attr_not_found:
  assumes "\<forall>a \<in> set adb. attr_id a = pk \<longrightarrow> attr_user a \<noteq> user req"
  shows "get_object_attr adb req pk = Inl Http404"
proof -
  have "filter (\<lambda>a. attr_id a = pk) (get_queryset_attr adb req) = []"
    using assms by (auto simp: filter_empty_conv set_get_queryset_attr)
  then show ?thesis by (simp add: get_object_attr_def)
qed

section \<open>Reconciliation keeps what exists\<close>

lemma lookup_owned_append:
  "lookup_owned owner n (xs @ ys) =
     (case lookup_owned owner n xs of Some a \<Rightarrow> Some a | None \<Rightarrow> lookup_owned owner n ys)"
  by (induction xs) (auto simp: lookup_owned_def)

lemma lookup_owned_Some:
  "lookup_owned owner n store = Some a \<Longrightarrow>
   a \<in> set store \<and> attr_user a = owner \<and> attr_name a = n"
  by (auto simp: lookup_owned_def find_Some_iff)

lemma lookup_owned_None:
  "lookup_owned owner n store = None \<longleftrightarrow>
   (\<forall>a \<in> set store. attr_user a = owner \<longrightarrow> attr_name a \<noteq> n)"
  by (auto simp: lookup_owned_def find_None_iff)

lemma get_or_create_hit:
  "lookup_owned owner n store = Some a \<Longrightarrow> get_or_create owner n store = (a, store)"
  by (simp add: get_or_create_def)

lemma get_or_create_miss:
  "lookup_owned owner n store = None \<Longrightarrow>
   get_or_create owner n store =
     (\<lparr>attr_id = next_id store, attr_name = n, attr_user = owner\<rparr>,
      store @ [\<lparr>attr_id = next_id store, attr_name = n, attr_user = owner\<rparr>])"
  by (simp add: get_or_create_def Let_def)

text \<open>
  The table after reconciliation is the table before it followed by new rows: all of
  the owner, one for each descriptor name the owner had no entity for, and each
  descriptor resolves to the owner's entity of that name in the resulting table.
\<close>

lemma reconcile_inv:
  "reconcile owner names store = (resolved, store') \<Longrightarrow>
   \<exists>new. store' = store @ new
     \<and> (\<forall>x \<in> set new. attr_user x = owner)
     \<and> attr_name ` set new = {m \<in> set names. lookup_owned owner m store = None}
     \<and> distinct (map attr_name new)
     \<and> map Some resolved = map (\<lambda>m. lookup_owned owner m store') names"
proof (induction names arbitrary: store resolved)
  case Nil
  then show ?case by simp
next
  case (Cons n ns)
  show ?case
  proof (cases "lookup_owned owner n store")
    case (Some a)
    with Cons.prems obtain res where r: "reconcile owner ns store = (res, store')"
      and res: "resolved = a # res"
      by (auto simp: get_or_create_hit split: prod.splits)
    from Cons.IH [OF r] obtain new where n: "store' = store @ new"
      "\<forall>x \<in> set new. attr_user x = owner"
      "attr_name ` set new = {m \<in> set ns. lookup_owned owner m store = None}"
      "distinct (map attr_name new)"
      "map Some res = map (\<lambda>m. lookup_owned owner m store') ns"
      by blast
    have "attr_name ` set new = {m \<in> set (n # ns). lookup_owned owner m store = None}"
      using n(3) Some by auto
    moreover have "map Some resolved = map (\<lambda>m. lookup_owned owner m store') (n # ns)"
      using n(1,5) Some res by (simp add: lookup_owned_append)
    ultimately show ?thesis using n(1,2,4) by blast
  next
    case None
    define x where "x = \<lparr>attr_id = next_id store, attr_name = n, attr_user = owner\<rparr>"
    from None Cons.prems obtain res where r: "reconcile owner ns (store @ [x]) = (res, store')"
      and res: "resolved = x # res"
      by (auto simp: get_or_create_miss x_def split: prod.splits)
    from Cons.IH [OF r] obtain new where n: "store' = (store @ [x]) @ new"
      "\<forall>y \<in> set new. attr_user y = owner"
      "attr_name ` set new = {m \<in> set ns. lookup_owned owner m (store @ [x]) = None}"
      "distinct (map attr_name new)"
      "map Some res = map (\<lambda>m. lookup_owned owner m store') ns"
      by blast
    have lx: "lookup_owned owner m (store @ [x]) = None \<longleftrightarrow>
              lookup_owned owner m store = None \<and> m \<noteq> n" for m
      by (auto simp: lookup_owned_None x_def)
    have a: "store' = store @ (x # new)" using n(1) by simp
    have b: "\<forall>y \<in> set (x # new). attr_user y = owner" using n(2) by (simp add: x_def)
    have n3: "attr_name ` set new =
              {m \<in> set ns. lookup_owned owner m store = None \<and> m \<noteq> n}"
      using n(3) by (simp add: lx)
    have xn: "attr_name x = n" by (simp add: x_def)
    have c: "attr_name ` set (x # new) =
             {m \<in> set (n # ns). lookup_owned owner m store = None}"
      using n3 None xn by auto
    have "n \<notin> attr_name ` set new" using n3 by simp
    then have d: "distinct (map attr_name (x # new))" using n(4) xn by simp
    have "lookup_owned owner n (x # new) = Some x"
      by (simp add: lookup_owned_def x_def)
    with None have "lookup_owned owner n store' = Some x"
      by (simp add: a lookup_owned_append)
    then have e: "map Some resolved = map (\<lambda>m. lookup_owned owner m store') (n # ns)"
      using n(5) res by simp
    from a b c d e show ?thesis by blast
  qed
qed

section \<open>The claims\<close>

text \<open>
  Claim C1. A recipe list request with \<^verbatim>\<open>tags=1,2\<close> should return the caller's recipes
  that carry tag 1 or tag 2. On the tables of \<^verbatim>\<open>test_filter_by_tags\<close> (two tagged
  recipes and an untagged one, all of the caller) the query set construction instead
  raises \<open>FieldError\<close> for the keyword \<^verbatim>\<open>tags_id_in\<close>: no recipe is returned.
\<close>

theorem filter_by_tags_raises:
  "get_queryset
     [sample_recipe 1 1 [1] [], sample_recipe 2 1 [2] [], sample_recipe 3 1 [] []]
     tags_request
   = Inl (FieldError ''tags_id_in'')"
  by code_simp

text \<open>
  Claim C2. The rows that list, retrieve, update and delete can reach on recipes, tags
  and ingredients are rows of the caller: every row of a returned query set and every
  looked-up object is in the table and owned by the caller, a tag or ingredient whose
  identifier belongs to other users only is not found, and both the query set and the
  object lookup are the same as on the table without the rows of other users.
\<close>

theorem owner_scoping:
  "(\<forall>rs. get_queryset db req = Inr rs \<longrightarrow>
        set rs \<subseteq> {r \<in> set db. recipe_user r = user req})
   \<and> (\<forall>r. get_object db req pk = Inr r \<longrightarrow>
         r \<in> set db \<and> recipe_user r = user req \<and> recipe_id r = pk)
   \<and> get_queryset (filter_user (user req) db) req = get_queryset db req
   \<and> get_object (filter_user (user req) db) req pk = get_object db req pk
   \<and> set (get_queryset_attr adb req) = {a \<in> set adb. attr_user a = user req}
   \<and> (\<forall>a. get_object_attr adb req pk = Inr a \<longrightarrow>
         a \<in> set adb \<and> attr_user a = user req \<and> attr_id a = pk)
   \<and> ((\<forall>a \<in> set adb. attr_id a = pk \<longrightarrow> attr_user a \<noteq> user req) \<longrightarrow>
         get_object_attr adb req pk = Inl Http404)
   \<and> get_queryset_attr (filter (\<lambda>a. attr_user a = user req) adb) req
       = get_queryset_attr adb req
   \<and> get_object_attr (filter (\<lambda>a. attr_user a = user req) adb) req pk
       = get_object_attr adb req pk"
  using get_queryset_owned [of db req] get_object_owned [of db req pk]
    get_queryset_ignores_others [of req db] get_object_ignores_others [of req db pk]
    set_get_queryset_attr [of adb req] get_object_attr_owned [of adb req pk]
    get_object_attr_not_found [of adb pk req]
    get_queryset_attr_ignores_others [of req adb]
    get_object_attr_ignores_others [of req adb pk]
  by blast

theorem owner_scoping_witness:
  "get_queryset example_recipes plain_request
     = Inr [sample_recipe 2 1 [] [2], sample_recipe 1 1 [1] []]
   \<and> set [sample_recipe 2 1 [] [2], sample_recipe 1 1 [1] []]
       \<subseteq> {r \<in> set example_recipes. recipe_user r = user plain_request}
   \<and> get_object example_recipes plain_request 1 = Inr (sample_recipe 1 1 [1] [])
   \<and> recipe_user (sample_recipe 1 1 [1] []) = user plain_request
   \<and> get_object example_recipes plain_request 3 = Inl Http404
   \<and> get_object_attr example_tags plain_request 2
       = Inr \<lparr>attr_id = 2, attr_name = ''Vegan'', attr_user = 1\<rparr>
   \<and> get_object_attr example_tags plain_request 3 = Inl Http404"
proof -
  have q: "get_queryset example_recipes plain_request
     = Inr [sample_recipe 2 1 [] [2], sample_recipe 1 1 [1] []]"
    by code_simp
  have o: "get_object example_recipes plain_request 1 = Inr (sample_recipe 1 1 [1] [])"
    by code_simp
  have n: "get_object example_recipes plain_request 3 = Inl Http404"
    by code_simp
  have a: "get_object_attr example_tags plain_request 2
       = Inr \<lparr>attr_id = 2, attr_name = ''Vegan'', attr_user = 1\<rparr>"
    by code_simp
  have h: "\<forall>a \<in> set example_tags. attr_id a = 3 \<longrightarrow> attr_user a \<noteq> user plain_request"
    by (simp add: example_tags_def plain_request_def)
  note found = owner_scoping [of example_recipes plain_request 1 example_tags]
  note other = owner_scoping [of example_recipes plain_request 3 example_tags]
  from found q have "set [sample_recipe 2 1 [] [2], sample_recipe 1 1 [1] []]
       \<subseteq> {r \<in> set example_recipes. recipe_user r = user plain_request}"
    by blast
  moreover from found o have "recipe_user (sample_recipe 1 1 [1] []) = user plain_request"
    by blast
  moreover from other h have "get_object_attr example_tags plain_request 3 = Inl Http404"
    by blast
  ultimately show ?thesis using q o n a by blast
qed

text \<open>
  Claim C3, as the code has it: the tags, and likewise the ingredients, that a list
  request returns are in descending order of name.
\<close>

theorem attr_list_descending:
  "sorted_wrt (\<lambda>a b. attr_name b \<le> attr_name a) (get_queryset_attr adb req)"
  by (simp add: get_queryset_attr_def order_by_name_desc_sorted)

text \<open>
  Claim C3 as stated, ascending order of name, fails: a caller with the tags Dessert
  and Vegan gets Vegan first.
\<close>

theorem attr_list_ascending_counterexample:
  "\<not> sorted (map attr_name (get_queryset_attr
       [\<lparr>attr_id = 1, attr_name = ''Dessert'', attr_user = 1\<rparr>,
        \<lparr>attr_id = 2, attr_name = ''Vegan'', attr_user = 1\<rparr>]
       plain_request))"
  by code_simp

text \<open>
  Claim C4. A recipe that carries both tag 1 and tag 2 should appear exactly once in
  the answer to \<^verbatim>\<open>tags=1,2\<close>. The query set construction raises \<open>FieldError\<close> instead,
  and the request ends with status 500: the recipe does not appear.
\<close>

theorem multiply_tagged_recipe_not_listed:
  "get_queryset [sample_recipe 1 1 [1, 2] []] tags_request = Inl (FieldError ''tags_id_in'')
   \<and> list_status [sample_recipe 1 1 [1, 2] []] tags_request = 500"
  by code_simp

text \<open>
  Claim C5. Whatever the validated payload holds, also under the key \<^verbatim>\<open>user\<close>, the
  data that \<open>perform_create\<close> hands to the creation carry the caller as \<^verbatim>\<open>user\<close>, and
  a recipe created from them is owned by the caller.
\<close>

theorem perform_create_owner:
  "perform_create req validated_data ''user'' = Some (IntV (user req))
   \<and> (\<forall>r. create new_id (perform_create req validated_data) = Some r
        \<longrightarrow> recipe_user r = user req)"
  by (auto simp: perform_create_def save_def create_def split: option.splits val.splits)

theorem perform_create_owner_witness:
  "payload_with_user ''user'' = Some (IntV 2)
   \<and> user plain_request = 1
   \<and> create 7 (perform_create plain_request payload_with_user)
       = Some \<lparr>recipe_id = 7, recipe_user = 1, title = ''Sample recipe'', time_minutes = 30,
               price = 599, description = [], link = [], tags = [], ingredients = []\<rparr>"
proof -
  let ?r = "\<lparr>recipe_id = 7, recipe_user = 1, title = ''Sample recipe'', time_minutes = 30,
             price = 599, description = [], link = [], tags = [], ingredients = []\<rparr>"
  have c: "create 7 (perform_create plain_request payload_with_user) = Some ?r"
    by (simp add: create_def perform_create_def save_def payload_with_user_def opt_str_def
        plain_request_def)
  have "recipe_user ?r = user plain_request"
    using perform_create_owner [of plain_request payload_with_user 7] c by blast
  then show ?thesis using c by (simp add: payload_with_user_def)
qed

text \<open>
  Claim C6. The list action is serialized with the summary serializer, whose fields
  have no description, tags or ingredients; every other action, retrieve among them,
  is serialized with the detail serializer, whose fields include description, tags and
  ingredients.
\<close>

theorem serializer_by_action:
  "get_serializer_class ''list'' = RecipeSerializer
   \<and> ''description'' \<notin> set (serializer_fields (get_serializer_class ''list''))
   \<and> ''tags'' \<notin> set (serializer_fields (get_serializer_class ''list''))
   \<and> ''ingredients'' \<notin> set (serializer_fields (get_serializer_class ''list''))
   \<and> (action \<noteq> ''list'' \<longrightarrow>
        get_serializer_class action = RecipeDetailSerializer
        \<and> {''description'', ''tags'', ''ingredients''}
            \<subseteq> set (serializer_fields (get_serializer_class action)))"
  by (simp add: get_serializer_class_def serializer_class_def summary_fields_def)

theorem serializer_by_action_witness:
  "''retrieve'' \<noteq> ''list''
   \<and> get_serializer_class ''retrieve'' = RecipeDetailSerializer
   \<and> {''description'', ''tags'', ''ingredients''}
       \<subseteq> set (serializer_fields (get_serializer_class ''retrieve''))"
  using serializer_by_action [of "''retrieve''"] by simp

text \<open>With a valid token the handler of the action runs for the token's user.\<close>

lemma authenticated_request_handled:
  "v \<in> {RecipeViewSet, TagViewSet, IngredientViewSet} \<Longrightarrow>
   dispatch v handler (ValidToken u) params s = handler (Some u) params s"
  by (auto simp: dispatch_def RecipeViewSet_def TagViewSet_def IngredientViewSet_def
      BaseRecipeAttrViewSet_def refusal_status_def permission_denied_status_def)

text \<open>
  Claim C7. On the recipe, tag and ingredient view sets, a request without a token or
  with an invalid token is answered 401, whatever the handler of the action is, and
  the tables are as before: the handler has not run.
\<close>

theorem unauthenticated_request_refused:
  "v \<in> {RecipeViewSet, TagViewSet, IngredientViewSet} \<Longrightarrow>
   cred \<in> {NoCredential, InvalidToken} \<Longrightarrow>
   dispatch v handler cred params s = (401, s)"
  by (auto simp: dispatch_def RecipeViewSet_def TagViewSet_def IngredientViewSet_def
      BaseRecipeAttrViewSet_def refusal_status_def permission_denied_status_def)

theorem unauthenticated_request_refused_witness:
  "RecipeViewSet \<in> {RecipeViewSet, TagViewSet, IngredientViewSet}
   \<and> NoCredential \<in> {NoCredential, InvalidToken}
   \<and> dispatch RecipeViewSet delete_all NoCredential (query_params plain_request)
        example_recipes = (401, example_recipes)
   \<and> dispatch RecipeViewSet delete_all (ValidToken 1) (query_params plain_request)
        example_recipes = (204, [])"
  using unauthenticated_request_refused [of RecipeViewSet NoCredential delete_all
      "query_params plain_request" example_recipes]
  by (simp add: authenticated_request_handled delete_all_def)

text \<open>
  Claim C8. Reconciling a list of descriptors leaves every existing row in place and
  unchanged; a descriptor whose name matches an entity of the owner resolves to that
  entity; the number of the owner's entities grows by the number of distinct names
  without a match, so not at all by a reuse, and the table is the same when every name
  matches; names that were unique for the owner stay unique.
\<close>

theorem reconcile_reuses_existing:
  assumes "reconcile owner names store = (resolved, store')"
  shows "take (length store) store' = store
    \<and> length resolved = length names
    \<and> (\<forall>i a. i < length names \<and> lookup_owned owner (names ! i) store = Some a \<longrightarrow>
          resolved ! i = a \<and> a \<in> set store \<and> attr_user a = owner
          \<and> attr_name a = names ! i)
    \<and> length (owned_by owner store') =
        length (owned_by owner store)
        + card {m \<in> set names. lookup_owned owner m store = None}
    \<and> ((\<forall>m \<in> set names. lookup_owned owner m store \<noteq> None) \<longrightarrow> store' = store)
    \<and> (distinct (map attr_name (owned_by owner store)) \<longrightarrow>
          distinct (map attr_name (owned_by owner store')))"
proof -
  from reconcile_inv [OF assms] obtain new where a: "store' = store @ new"
    and b: "\<forall>x \<in> set new. attr_user x = owner"
    and c: "attr_name ` set new = {m \<in> set names. lookup_owned owner m store = None}"
    and d: "distinct (map attr_name new)"
    and e: "map Some resolved = map (\<lambda>m. lookup_owned owner m store') names"
    by blast
  have p1: "take (length store) store' = store" using a by simp
  have p2: "length resolved = length names"
    using arg_cong [OF e, of length] by simp
  have p3: "resolved ! i = x \<and> x \<in> set store \<and> attr_user x = owner
            \<and> attr_name x = names ! i"
    if i: "i < length names" and l: "lookup_owned owner (names ! i) store = Some x" for i x
  proof -
    have "Some (resolved ! i) = map Some resolved ! i" using i p2 by simp
    also have "\<dots> = lookup_owned owner (names ! i) store'" using i by (simp add: e)
    also have "\<dots> = Some x" using l by (simp add: a lookup_owned_append)
    finally show ?thesis using lookup_owned_Some [OF l] by simp
  qed
  have on: "owned_by owner new = new" using b by (simp add: owned_by_def)
  have ow: "owned_by owner store' = owned_by owner store @ new"
    using on by (simp add: a owned_by_def)
  have "length new = card (attr_name ` set new)"
    using d by (metis distinct_card length_map set_map)
  then have p4: "length (owned_by owner store') =
        length (owned_by owner store)
        + card {m \<in> set names. lookup_owned owner m store = None}"
    using c ow by simp
  have p5: "store' = store" if "\<forall>m \<in> set names. lookup_owned owner m store \<noteq> None"
  proof -
    from that c have "attr_name ` set new = {}" by auto
    then show ?thesis using a by simp
  qed
  have p6: "distinct (map attr_name (owned_by owner store'))"
    if "distinct (map attr_name (owned_by owner store))"
  proof -
    have "attr_name ` set (owned_by owner store) \<inter> attr_name ` set new = {}"
      using c by (auto simp: owned_by_def lookup_owned_None)
    then show ?thesis using that d by (simp add: ow)
  qed
  from p1 p2 p3 p4 p5 p6 show ?thesis by blast
qed

theorem reconcile_reuses_existing_witness:
  "reconcile 1 [''Indian'', ''Breakfast''] [indian]
     = ([indian, breakfast], [indian, breakfast])
   \<and> lookup_owned 1 ([''Indian'', ''Breakfast''] ! 0) [indian] = Some indian
   \<and> [indian, breakfast] ! 0 = indian
   \<and> length (owned_by 1 [indian, breakfast]) = length (owned_by 1 [indian]) + 1
   \<and> reconcile 1 [''Indian'', ''Indian''] [indian] = ([indian, indian], [indian])
   \<and> distinct (map attr_name (owned_by 1 [indian, breakfast]))"
proof -
  have r: "reconcile 1 [''Indian'', ''Breakfast''] [indian]
           = ([indian, breakfast], [indian, breakfast])"
    by code_simp
  have l: "lookup_owned 1 ([''Indian'', ''Breakfast''] ! 0) [indian] = Some indian"
    by code_simp
  have r2: "reconcile 1 [''Indian'', ''Indian''] [indian] = ([indian, indian], [indian])"
    by code_simp
  have u: "distinct (map attr_name (owned_by 1 [indian]))"
    by (simp add: owned_by_def)
  have k: "card {m \<in> set [''Indian'', ''Breakfast'']. lookup_owned 1 m [indian] = None} = 1"
  proof -
    have "{m \<in> set [''Indian'', ''Breakfast'']. lookup_owned 1 m [indian] = None}
          = {''Breakfast''}"
      by (auto simp: lookup_owned_def indian_def)
    then show ?thesis by simp
  qed
  note t = reconcile_reuses_existing [OF r]
  from t l have "[indian, breakfast] ! 0 = indian" by blast
  moreover from t k
  have "length (owned_by 1 [indian, breakfast]) = length (owned_by 1 [indian]) + 1"
    by simp
  moreover from t u have "distinct (map attr_name (owned_by 1 [indian, breakfast]))"
    by blast
  ultimately show ?thesis using r l r2 by blast
qed

text \<open>
  Claim C9. There are recipe list requests with a filter token that is no decimal
  integer, \<^verbatim>\<open>tags=abc\<close>, \<^verbatim>\<open>tags=1,\<close> and \<^verbatim>\<open>ingredients=abc\<close>, on which the query set
  construction raises \<open>ValueError\<close> from the integer conversion, whatever the tables
  and the caller; the request ends with status 500, not with a 400 validation error.
\<close>

theorem non_integer_token_raises:
  "get_queryset db \<lparr>user = u, query_params = [''tags'' \<mapsto> ''abc'']\<rparr> = Inl ValueError
   \<and> get_queryset db \<lparr>user = u, query_params = [''tags'' \<mapsto> ''1,'']\<rparr> = Inl ValueError
   \<and> get_queryset db \<lparr>user = u, query_params = [''ingredients'' \<mapsto> ''abc'']\<rparr>
       = Inl ValueError
   \<and> list_status db \<lparr>user = u, query_params = [''tags'' \<mapsto> ''abc'']\<rparr> = 500
   \<and> list_status db \<lparr>user = u, query_params = [''tags'' \<mapsto> ''1,'']\<rparr> = 500"
  by (simp add: get_queryset_def list_status_def truthy_def params_abc
      params_trailing_comma exception_status_def)

text \<open>
  Claim C10. A \<^verbatim>\<open>tags\<close> parameter that is the empty string gives the same result as no
  \<^verbatim>\<open>tags\<close> parameter, likewise for \<^verbatim>\<open>ingredients\<close>; and when each of the two is empty or
  absent the request returns, without error, all recipes of the caller.
\<close>

theorem empty_param_as_absent:
  "get_queryset db (req\<lparr>query_params := (query_params req)(''tags'' \<mapsto> [])\<rparr>)
     = get_queryset db (req\<lparr>query_params := (query_params req)(''tags'' := None)\<rparr>)
   \<and> get_queryset db (req\<lparr>query_params := (query_params req)(''ingredients'' \<mapsto> [])\<rparr>)
     = get_queryset db (req\<lparr>query_params := (query_params req)(''ingredients'' := None)\<rparr>)
   \<and> (query_params req ''tags'' \<in> {None, Some []} \<longrightarrow>
      query_params req ''ingredients'' \<in> {None, Some []} \<longrightarrow>
      get_queryset db req
        = Inr (distinct_qs (order_by_id_desc (filter_user (user req) db))))"
  by (auto simp: get_queryset_def truthy_def Let_def split: sum.splits)

theorem empty_param_as_absent_witness:
  "query_params empty_filters_request ''tags'' \<in> {None, Some []}
   \<and> query_params empty_filters_request ''ingredients'' \<in> {None, Some []}
   \<and> get_queryset example_recipes empty_filters_request
       = Inr [sample_recipe 2 1 [] [2], sample_recipe 1 1 [1] []]"
proof -
  have t: "query_params empty_filters_request ''tags'' \<in> {None, Some []}"
    by (simp add: empty_filters_request_def)
  have i: "query_params empty_filters_request ''ingredients'' \<in> {None, Some []}"
    by (simp add: empty_filters_request_def)
  have "get_queryset example_recipes empty_filters_request
        = Inr (distinct_qs (order_by_id_desc
            (filter_user (user empty_filters_request) example_recipes)))"
    using empty_param_as_absent [of example_recipes empty_filters_request] t i by blast
  also have "distinct_qs (order_by_id_desc
            (filter_user (user empty_filters_request) example_recipes))
        = [sample_recipe 2 1 [] [2], sample_recipe 1 1 [1] []]"
    by code_simp
  finally show ?thesis using t i by simp
qed

end
